theory Spec2Isabelle
  imports Complex_Main "HOL-Library.Word"
begin

unbundle bit_operations_syntax

section \<open>Values: floats, dimensions, arrays\<close>

text \<open>
  The block of \<open>VisionTransformer.cpp\<close> is written against a tensor library (ArrayFire
  arrays, wrapped in flashlight variables) whose code is not part of the source file.
  This section models the values and the operations of that library which the source
  applies directly; their semantics is that of the library, not of the source file.

  A \<open>float\<close> of the C++ source is modelled by its IEEE-754 value class: a finite value
  (carried as a real number), one of the two infinities, or a NaN. Rounding and overflow
  of finite arithmetic are not modelled: finite operations are computed exactly. The
  special values follow IEEE-754, in particular \<open>0 / 0\<close> is a NaN and every operation
  with a NaN operand is a NaN.
\<close>

datatype flt = Fin real | PInf | NInf | NaN

text \<open>\<open>af::dim4\<close>: an ArrayFire array always has four dimensions, trailing ones are 1.\<close>

datatype dim4 = Dim4 nat nat nat nat

fun dimn :: "dim4 \<Rightarrow> nat \<Rightarrow> nat" where
  "dimn (Dim4 a b c d) k =
     (if k = 0 then a else if k = 1 then b else if k = 2 then c else d)"

fun elements :: "dim4 \<Rightarrow> nat" where
  "elements (Dim4 a b c d) = a * b * c * d"

text \<open>
  An \<open>af::array\<close> (and the \<open>fl::Variable\<close> wrapping it): its dimensions and its
  elements in ArrayFire's storage order, which is column-major: element \<open>(i, j, k)\<close> of an
  array of dimensions \<open>d0 \<times> d1 \<times> d2\<close> is at offset \<open>i + d0 * (j + d1 * k)\<close>.
\<close>

record tensor =
  dims :: dim4
  elems :: "flt list"

definition at2 :: "tensor \<Rightarrow> nat \<Rightarrow> nat \<Rightarrow> flt" where
  "at2 t i j = elems t ! (i + dimn (dims t) 0 * j)"

definition at3 :: "tensor \<Rightarrow> nat \<Rightarrow> nat \<Rightarrow> nat \<Rightarrow> flt" where
  "at3 t i j k = elems t ! (i + dimn (dims t) 0 * (j + dimn (dims t) 1 * k))"

text \<open>\<open>af::array(dims, ptr)\<close>: the array of the given dimensions read from host memory.\<close>

definition af_array :: "dim4 \<Rightarrow> flt list \<Rightarrow> tensor" where
  "af_array d xs = \<lparr>dims = d, elems = take (elements d) xs\<rparr>"

text \<open>
  \<open>a(af::seq(lo, hi), af::span)\<close>: rows \<open>lo .. hi\<close> of every column. On a vector
  (second dimension 1) this is \<open>a(af::seq(lo, hi))\<close>.
\<close>

definition seq_rows :: "tensor \<Rightarrow> nat \<Rightarrow> nat \<Rightarrow> tensor" where
  "seq_rows a lo hi =
     (let n = hi + 1 - lo; d0 = dimn (dims a) 0; d1 = dimn (dims a) 1
      in \<lparr>dims = Dim4 n d1 1 1,
          elems = map (\<lambda>idx. elems a ! (lo + idx mod n + d0 * (idx div n))) [0..<n * d1]\<rparr>)"

subsection \<open>Float arithmetic\<close>

text \<open>
  IEEE-754 arithmetic on the value classes. The sign of a zero is not modelled: a zero
  divisor counts as positive.
\<close>

fun fadd :: "flt \<Rightarrow> flt \<Rightarrow> flt" where
  "fadd (Fin a) (Fin b) = Fin (a + b)"
| "fadd NaN y = NaN"
| "fadd x NaN = NaN"
| "fadd PInf NInf = NaN"
| "fadd NInf PInf = NaN"
| "fadd PInf y = PInf"
| "fadd NInf y = NInf"
| "fadd x PInf = PInf"
| "fadd x NInf = NInf"

fun fmul :: "flt \<Rightarrow> flt \<Rightarrow> flt" where
  "fmul (Fin a) (Fin b) = Fin (a * b)"
| "fmul NaN y = NaN"
| "fmul x NaN = NaN"
| "fmul PInf (Fin b) = (if b = 0 then NaN else if 0 < b then PInf else NInf)"
| "fmul NInf (Fin b) = (if b = 0 then NaN else if 0 < b then NInf else PInf)"
| "fmul (Fin a) PInf = (if a = 0 then NaN else if 0 < a then PInf else NInf)"
| "fmul (Fin a) NInf = (if a = 0 then NaN else if 0 < a then NInf else PInf)"
| "fmul PInf PInf = PInf"
| "fmul PInf NInf = NInf"
| "fmul NInf PInf = NInf"
| "fmul NInf NInf = PInf"

fun fdiv :: "flt \<Rightarrow> flt \<Rightarrow> flt" where
  "fdiv (Fin a) (Fin b) =
     (if b = 0 then (if a = 0 then NaN else if 0 < a then PInf else NInf) else Fin (a / b))"
| "fdiv NaN y = NaN"
| "fdiv x NaN = NaN"
| "fdiv (Fin a) PInf = Fin 0"
| "fdiv (Fin a) NInf = Fin 0"
| "fdiv PInf (Fin b) = (if 0 \<le> b then PInf else NInf)"
| "fdiv NInf (Fin b) = (if 0 \<le> b then NInf else PInf)"
| "fdiv PInf y = NaN"
| "fdiv NInf y = NaN"

fun fpow :: "flt \<Rightarrow> nat \<Rightarrow> flt" where
  "fpow (Fin a) n = Fin (a ^ n)"
| "fpow NaN n = (if n = 0 then Fin 1 else NaN)"
| "fpow PInf n = (if n = 0 then Fin 1 else PInf)"
| "fpow NInf n = (if n = 0 then Fin 1 else if odd n then NInf else PInf)"

fun ftanh :: "flt \<Rightarrow> flt" where
  "ftanh (Fin a) = Fin (tanh a)"
| "ftanh PInf = Fin 1"
| "ftanh NInf = Fin (- 1)"
| "ftanh NaN = NaN"

fun fexp :: "flt \<Rightarrow> flt" where
  "fexp (Fin a) = Fin (exp a)"
| "fexp PInf = PInf"
| "fexp NInf = Fin 0"
| "fexp NaN = NaN"

fun fsqrt :: "flt \<Rightarrow> flt" where
  "fsqrt (Fin a) = (if a < 0 then NaN else Fin (sqrt a))"
| "fsqrt PInf = PInf"
| "fsqrt NInf = NaN"
| "fsqrt NaN = NaN"

text \<open>\<open>x > y\<close>: false whenever an operand is a NaN.\<close>

fun fgt :: "flt \<Rightarrow> flt \<Rightarrow> bool" where
  "fgt (Fin a) (Fin b) = (b < a)"
| "fgt NaN y = False"
| "fgt x NaN = False"
| "fgt PInf y = (y \<noteq> PInf)"
| "fgt x PInf = False"
| "fgt x NInf = (x \<noteq> NInf)"
| "fgt NInf y = False"

fun is_fin :: "flt \<Rightarrow> bool" where
  "is_fin (Fin a) = True"
| "is_fin x = False"

fun the_fin :: "flt \<Rightarrow> real" where
  "the_fin (Fin a) = a"
| "the_fin x = 0"

text \<open>The sum of a sequence of floats, from the left.\<close>

definition fsum :: "flt list \<Rightarrow> flt" where
  "fsum xs = foldl fadd (Fin 0) xs"

subsection \<open>Elementwise operations on arrays\<close>

text \<open>
  Modelled from the spec: the elementwise operators of the tensor runtime (\<open>+\<close>, \<open>*\<close>,
  \<open>/\<close>, \<open>pow\<close>, \<open>tanh\<close>, \<open>>\<close>), which are not part of the source file. Each acts on
  every element on its own. A binary operator is applied to arrays of equal dimensions;
  the library rejects other operands, which the model does not represent (the result then
  takes the dimensions of the left operand and pairs the elements up to the shorter
  array). Casts between float types (\<open>.as(type)\<close>) do not change a value of the model.
\<close>

definition tadd :: "tensor \<Rightarrow> tensor \<Rightarrow> tensor" where
  "tadd a b = \<lparr>dims = dims a, elems = map2 fadd (elems a) (elems b)\<rparr>"

definition tmul :: "tensor \<Rightarrow> tensor \<Rightarrow> tensor" where
  "tmul a b = \<lparr>dims = dims a, elems = map2 fmul (elems a) (elems b)\<rparr>"

definition smul :: "real \<Rightarrow> tensor \<Rightarrow> tensor" where
  "smul c a = \<lparr>dims = dims a, elems = map (fmul (Fin c)) (elems a)\<rparr>"

definition sadd :: "real \<Rightarrow> tensor \<Rightarrow> tensor" where
  "sadd c a = \<lparr>dims = dims a, elems = map (fadd (Fin c)) (elems a)\<rparr>"

definition tdivs :: "tensor \<Rightarrow> flt \<Rightarrow> tensor" where
  "tdivs a c = \<lparr>dims = dims a, elems = map (\<lambda>e. fdiv e c) (elems a)\<rparr>"

definition tpow :: "tensor \<Rightarrow> nat \<Rightarrow> tensor" where
  "tpow a n = \<lparr>dims = dims a, elems = map (\<lambda>e. fpow e n) (elems a)\<rparr>"

definition ttanh :: "tensor \<Rightarrow> tensor" where
  "ttanh a = \<lparr>dims = dims a, elems = map ftanh (elems a)\<rparr>"

text \<open>\<open>a > p\<close> as an array of zeros and ones.\<close>

definition tgt :: "tensor \<Rightarrow> real \<Rightarrow> tensor" where
  "tgt a p = \<lparr>dims = dims a, elems = map (\<lambda>e. if fgt e (Fin p) then Fin 1 else Fin 0) (elems a)\<rparr>"

subsection \<open>Reductions, tiling, softmax\<close>

text \<open>The distance in storage between neighbours along an axis, and an axis resized.\<close>

fun stride :: "dim4 \<Rightarrow> nat \<Rightarrow> nat" where
  "stride (Dim4 a b c d) k =
     (if k = 0 then 1 else if k = 1 then a else if k = 2 then a * b else a * b * c)"

fun set_dim :: "dim4 \<Rightarrow> nat \<Rightarrow> nat \<Rightarrow> dim4" where
  "set_dim (Dim4 a b c d) k n =
     (if k = 0 then Dim4 n b c d else if k = 1 then Dim4 a n c d
      else if k = 2 then Dim4 a b n d else Dim4 a b c n)"

text \<open>
  \<open>af::mean(a, ax)\<close> of the array library: the mean along one axis, which shrinks to
  size 1.
\<close>

definition af_mean :: "tensor \<Rightarrow> nat \<Rightarrow> tensor" where
  "af_mean a ax =
     (let n = dimn (dims a) ax; s = stride (dims a) ax
      in \<lparr>dims = set_dim (dims a) ax 1,
          elems = map (\<lambda>out. let base = out mod s + s * n * (out div s)
                             in fdiv (fsum (map (\<lambda>j. elems a ! (base + j * s)) [0..<n]))
                                     (Fin (real n)))
                    [0..<length (elems a) div n]\<rparr>)"

text \<open>
  \<open>a.scalar<float>()\<close>: the first element. An empty array has none, and the model leaves
  the result open then; \<open>dropPath\<close> takes the scalar of an array with one element whenever
  the batch is not empty.
\<close>

definition scalar :: "tensor \<Rightarrow> flt" where
  "scalar a = elems a ! 0"

text \<open>\<open>af::tile(a, reps)\<close>: the array repeated along each axis.\<close>

fun af_tile :: "tensor \<Rightarrow> dim4 \<Rightarrow> tensor" where
  "af_tile a (Dim4 r0 r1 r2 r3) =
     (let d0 = dimn (dims a) 0; d1 = dimn (dims a) 1; d2 = dimn (dims a) 2;
          d3 = dimn (dims a) 3;
          e0 = d0 * r0; e1 = d1 * r1; e2 = d2 * r2; e3 = d3 * r3
      in \<lparr>dims = Dim4 e0 e1 e2 e3,
          elems = map (\<lambda>idx.
                    let i0 = idx mod e0; i1 = (idx div e0) mod e1;
                        i2 = (idx div (e0 * e1)) mod e2; i3 = idx div (e0 * e1 * e2)
                    in elems a ! (i0 mod d0 + d0 * (i1 mod d1 + d1 * (i2 mod d2 + d2 * (i3 mod d3)))))
                  [0..<e0 * e1 * e2 * e3]\<rparr>)"

text \<open>
  Modelled from the spec: \<open>fl::softmax(input, ax)\<close>, which is not part of the source file.
  Along the axis, each element becomes its exponential divided by the sum of the
  exponentials of the elements on its line.
\<close>

definition softmax :: "tensor \<Rightarrow> nat \<Rightarrow> tensor" where
  "softmax a ax =
     (let n = dimn (dims a) ax; s = stride (dims a) ax
      in \<lparr>dims = dims a,
          elems = map (\<lambda>idx. let base = idx - ((idx div s) mod n) * s
                             in fdiv (fexp (elems a ! idx))
                                     (fsum (map (\<lambda>j. fexp (elems a ! (base + j * s))) [0..<n])))
                    [0..<length (elems a)]\<rparr>)"

subsection \<open>Random numbers\<close>

text \<open>
  The process-wide generator of the array library is a stream of uniform samples;
  \<open>af::randu(dims)\<close> takes the next samples, one for each element, and advances the
  stream.
\<close>

type_synonym rng = "nat \<Rightarrow> real"

definition randu :: "dim4 \<Rightarrow> rng \<Rightarrow> tensor \<times> rng" where
  "randu d g = (\<lparr>dims = d, elems = map (\<lambda>i. Fin (g i)) [0..<elements d]\<rparr>,
                \<lambda>i. g (i + elements d))"

section \<open>Reading a checkpoint file\<close>

text \<open>
  The file system is a partial map from paths to file contents (bytes); a path that is not
  in its domain cannot be opened.
\<close>

type_synonym byte = "8 word"
type_synonym filesystem = "string \<rightharpoonup> byte list"

text \<open>Four bytes of memory read as a little-endian 32-bit pattern, and its IEEE-754 value.\<close>

definition bits_of_bytes :: "byte \<Rightarrow> byte \<Rightarrow> byte \<Rightarrow> byte \<Rightarrow> 32 word" where
  "bits_of_bytes b0 b1 b2 b3 =
     ucast b0 OR push_bit 8 (ucast b1) OR push_bit 16 (ucast b2) OR push_bit 24 (ucast b3)"

definition float_of_bits :: "32 word \<Rightarrow> flt" where
  "float_of_bits w =
     (let e = unat (drop_bit 23 w AND 255);
          m = unat (w AND 8388607);
          sg = (if bit w 31 then - 1 else 1 :: real)
      in if e = 255 then (if m = 0 then (if bit w 31 then NInf else PInf) else NaN)
         else if e = 0 then Fin (sg * real m / 2 ^ 149)
         else if 150 \<le> e then Fin (sg * real (8388608 + m) * 2 ^ (e - 150))
         else Fin (sg * real (8388608 + m) / 2 ^ (150 - e)))"

text \<open>
  \<open>readfloats\<close>: an empty vector when the file cannot be opened (the message printed to
  standard output is not modelled); otherwise \<open>size / sizeof(float)\<close> floats, read from the
  start of the file. Trailing bytes that do not fill a float are not read.
\<close>

definition readfloats :: "filesystem \<Rightarrow> string \<Rightarrow> flt list" where
  "readfloats fs filepath =
     (case fs filepath of
        None \<Rightarrow> []
      | Some bytes \<Rightarrow>
          (let num_elements = length bytes div 4
           in map (\<lambda>i. float_of_bits
                      (bits_of_bytes (bytes ! (4 * i)) (bytes ! (4 * i + 1))
                                     (bytes ! (4 * i + 2)) (bytes ! (4 * i + 3))))
                [0..<num_elements]))"

section \<open>The block\<close>

datatype error = RuntimeError string

text \<open>
  Modelled from the spec: the sub-modules \<open>fl::Linear\<close> and \<open>fl::LayerNorm\<close>, whose classes
  are not part of the source file. A linear sub-module holds a weight and a bias; a
  normalization sub-module holds its axes, its numerical floor, and a scale and a shift.
\<close>

record Linear =
  weight :: tensor
  bias :: tensor

record LayerNorm =
  axis :: "nat list"
  epsilon :: real
  affine :: bool
  axisSize :: nat
  params :: "tensor list"

text \<open>\<open>fl::constant(val, d0, d1)\<close>: an array of \<open>d0 \<times> d1\<close> elements, all of them \<open>val\<close>.\<close>

definition fl_constant :: "real \<Rightarrow> nat \<Rightarrow> nat \<Rightarrow> tensor" where
  "fl_constant val d0 d1 = \<lparr>dims = Dim4 d0 d1 1 1, elems = replicate (d0 * d1) (Fin val)\<rparr>"

text \<open>
  Modelled from the spec: the constructor of the normalization sub-module, which is not
  part of the source file. It holds a scale and a shift vector of length \<open>axisSize\<close>
  (scale one, shift zero until overridden).
\<close>

definition mkLayerNorm :: "nat list \<Rightarrow> real \<Rightarrow> bool \<Rightarrow> nat \<Rightarrow> LayerNorm" where
  "mkLayerNorm ax eps aff n =
     \<lparr>axis = ax, epsilon = eps, affine = aff, axisSize = n,
      params = [fl_constant 1 n 1, fl_constant 0 n 1]\<rparr>"

text \<open>\<open>setParams(var, position)\<close>: overrides one parameter.\<close>

definition setParams :: "LayerNorm \<Rightarrow> tensor \<Rightarrow> nat \<Rightarrow> LayerNorm" where
  "setParams layer var pos = layer\<lparr>params := (params layer)[pos := var]\<rparr>"

text \<open>
  The members of \<open>VisionTransformer\<close>, with the train flag of the module base class. The
  source file never sets the flag; a new module starts in training mode.
\<close>

record VisionTransformer =
  train :: bool
  modelDim :: nat
  headDim :: nat
  mlpDim :: nat
  nHeads :: nat
  pDropout :: real
  pLayerdrop :: real
  w1 :: Linear
  w2 :: Linear
  wq :: Linear
  wk :: Linear
  wv :: Linear
  wf :: Linear
  norm1 :: LayerNorm
  norm2 :: LayerNorm

subsection \<open>Construction from a checkpoint\<close>

text \<open>
  \<open>VisionTransformer(const std::string& prefix)\<close>. Each file is read and its element
  count checked in the order of the source; the first failing check throws a
  \<open>std::runtime_error\<close> whose message is the suffix of the file, and no object is built.
\<close>

definition VisionTransformer_load :: "filesystem \<Rightarrow> string \<Rightarrow> error + VisionTransformer" where
  "VisionTransformer_load fs prefix =
    (let w = readfloats fs (prefix @ ''.mlp.fc1.weight.bin'') in
     if length w \<noteq> 768 * 3072 then Inl (RuntimeError ''.mlp.fc1.weight.bin'') else
     let b = readfloats fs (prefix @ ''.mlp.fc1.bias.bin'') in
     if length b \<noteq> 3072 then Inl (RuntimeError ''.mlp.fc1.bias.bin'') else
     let w1' = \<lparr>weight = af_array (Dim4 3072 768 1 1) w, bias = af_array (Dim4 3072 1 1 1) b\<rparr> in
     let w = readfloats fs (prefix @ ''.mlp.fc2.weight.bin'') in
     if length w \<noteq> 768 * 3072 then Inl (RuntimeError ''.mlp.fc2.weight.bin'') else
     let b = readfloats fs (prefix @ ''.mlp.fc2.bias.bin'') in
     if length b \<noteq> 768 then Inl (RuntimeError ''.mlp.fc2.bias.bin'') else
     let w2' = \<lparr>weight = af_array (Dim4 768 3072 1 1) w, bias = af_array (Dim4 768 1 1 1) b\<rparr> in
     let w = readfloats fs (prefix @ ''.attn.qkv.weight.bin'') in
     if length w \<noteq> 768 * 2304 then Inl (RuntimeError ''.attn.qkv.weight.bin'') else
     let b = readfloats fs (prefix @ ''.attn.qkv.bias.bin'') in
     if length b \<noteq> 2304 then Inl (RuntimeError ''.attn.qkv.bias.bin'') else
     let all_w = af_array (Dim4 2304 768 1 1) w;
         all_b = af_array (Dim4 2304 1 1 1) b;
         wq' = \<lparr>weight = seq_rows all_w 0 (768 - 1), bias = seq_rows all_b 0 (768 - 1)\<rparr>;
         wk' = \<lparr>weight = seq_rows all_w 768 (2 * 768 - 1),
                bias = seq_rows all_b 768 (2 * 768 - 1)\<rparr>;
         wv' = \<lparr>weight = seq_rows all_w (2 * 768) (3 * 768 - 1),
                bias = seq_rows all_b (2 * 768) (3 * 768 - 1)\<rparr> in
     let w = readfloats fs (prefix @ ''.attn.proj.weight.bin'') in
     if length w \<noteq> 768 * 768 then Inl (RuntimeError ''.attn.proj.weight.bin'') else
     let b = readfloats fs (prefix @ ''.attn.proj.bias.bin'') in
     if length b \<noteq> 768 then Inl (RuntimeError ''.attn.proj.bias.bin'') else
     let wf' = \<lparr>weight = af_array (Dim4 768 768 1 1) w, bias = af_array (Dim4 768 1 1 1) b\<rparr> in
     let w = readfloats fs (prefix @ ''.norm1.weight.bin'') in
     if length w \<noteq> 768 then Inl (RuntimeError ''.norm1.weight.bin'') else
     let b = readfloats fs (prefix @ ''.norm1.bias.bin'') in
     if length b \<noteq> 768 then Inl (RuntimeError ''.norm1.bias.bin'') else
     let norm1' = setParams (setParams (mkLayerNorm [0] (1 / 10 ^ 6) True 768)
                    (af_array (Dim4 768 1 1 1) w) 0) (af_array (Dim4 768 1 1 1) b) 1 in
     let w = readfloats fs (prefix @ ''.norm2.weight.bin'') in
     if length w \<noteq> 768 then Inl (RuntimeError ''.norm2.weight.bin'') else
     let b = readfloats fs (prefix @ ''.norm2.bias.bin'') in
     if length b \<noteq> 768 then Inl (RuntimeError ''.norm2.bias.bin'') else
     let norm2' = setParams (setParams (mkLayerNorm [0] (1 / 10 ^ 6) True 768)
                    (af_array (Dim4 768 1 1 1) w) 0) (af_array (Dim4 768 1 1 1) b) 1 in
     Inr \<lparr>train = True, modelDim = 768, headDim = 768 div 12, mlpDim = 768 * 4, nHeads = 12,
          pDropout = 0, pLayerdrop = 0,
          w1 = w1', w2 = w2', wq = wq', wk = wk', wv = wv', wf = wf',
          norm1 = norm1', norm2 = norm2'\<rparr>)"

subsection \<open>The tensor runtime\<close>

text \<open>
  The operations of the tensor library and of the sub-modules that the block calls and
  that are defined outside the source file are parameters of the model: applying a linear
  and a normalization sub-module, transposition, reshaping (a target dimension \<open>- 1\<close> is
  inferred), the batched matrix products, the sampling branch of dropout and the
  truncated-normal sampler. They are total functions here, so an exception thrown inside
  the library is outside the model.
\<close>

record runtime =
  fl_linear :: "Linear \<Rightarrow> tensor \<Rightarrow> tensor"
  fl_layerNorm :: "LayerNorm \<Rightarrow> tensor \<Rightarrow> tensor"
  fl_transpose :: "tensor \<Rightarrow> tensor"
  fl_moddims :: "tensor \<Rightarrow> int list \<Rightarrow> tensor"
  fl_matmul :: "tensor \<Rightarrow> tensor \<Rightarrow> tensor"
  fl_matmulNT :: "tensor \<Rightarrow> tensor \<Rightarrow> tensor"
  fl_dropoutSample :: "tensor \<Rightarrow> real \<Rightarrow> rng \<Rightarrow> tensor \<times> rng"
  fl_truncNormalSample :: "nat \<Rightarrow> real \<Rightarrow> rng \<Rightarrow> flt list \<times> rng"

text \<open>
  Modelled from the spec: \<open>fl::dropout(input, p)\<close>, which is not part of the source file.
  With probability 0 it is a no-op and draws nothing; otherwise it samples a mask.
\<close>

definition dropout :: "runtime \<Rightarrow> tensor \<Rightarrow> real \<Rightarrow> rng \<Rightarrow> tensor \<times> rng" where
  "dropout rt input p g = (if p = 0 then (input, g) else fl_dropoutSample rt input p g)"

text \<open>\<open>truncNormal(dims, stdv)\<close>: an array of the given dimensions filled with samples.\<close>

definition truncNormal :: "runtime \<Rightarrow> dim4 \<Rightarrow> real \<Rightarrow> rng \<Rightarrow> tensor \<times> rng" where
  "truncNormal rt d stdv g =
     (let (xs, g') = fl_truncNormalSample rt (elements d) stdv g
      in (\<lparr>dims = d, elems = take (elements d) xs\<rparr>, g'))"

subsection \<open>Construction from a configuration\<close>

definition initLinear :: "runtime \<Rightarrow> nat \<Rightarrow> nat \<Rightarrow> rng \<Rightarrow> tensor \<times> rng" where
  "initLinear rt inDim outDim g = truncNormal rt (Dim4 outDim inDim 1 1) (2 / 100) g"

text \<open>
  \<open>VisionTransformer(modelDim, headDim, mlpDim, nHeads, pDropout, pLayerdrop)\<close>. The
  dimensions are given as natural numbers (the source takes \<open>int32_t\<close>; negative values and
  overflow of \<open>headDim * nHeads\<close> are not modelled). The weights are sampled in the order of
  the initializer list. A linear sub-module records the weight and the bias that the
  constructor passes to it; what the constructor of \<open>fl::Linear\<close>, outside the source
  file, does with them is not modelled.
\<close>

definition VisionTransformer_init ::
  "runtime \<Rightarrow> nat \<Rightarrow> nat \<Rightarrow> nat \<Rightarrow> nat \<Rightarrow> real \<Rightarrow> real \<Rightarrow> rng \<Rightarrow> VisionTransformer \<times> rng" where
  "VisionTransformer_init rt modelDim' headDim' mlpDim' nHeads' pDropout' pLayerdrop' g =
    (let (i1, g) = initLinear rt modelDim' mlpDim' g;
         w1' = \<lparr>weight = i1, bias = fl_constant 0 mlpDim' 1\<rparr>;
         (i2, g) = initLinear rt mlpDim' modelDim' g;
         w2' = \<lparr>weight = i2, bias = fl_constant 0 modelDim' 1\<rparr>;
         (iq, g) = initLinear rt modelDim' (headDim' * nHeads') g;
         wq' = \<lparr>weight = iq, bias = fl_constant 0 (headDim' * nHeads') 1\<rparr>;
         (ik, g) = initLinear rt modelDim' (headDim' * nHeads') g;
         wk' = \<lparr>weight = ik, bias = fl_constant 0 (headDim' * nHeads') 1\<rparr>;
         (iv, g) = initLinear rt modelDim' (headDim' * nHeads') g;
         wv' = \<lparr>weight = iv, bias = fl_constant 0 (headDim' * nHeads') 1\<rparr>;
         (if', g) = initLinear rt (headDim' * nHeads') modelDim' g;
         wf' = \<lparr>weight = if', bias = fl_constant 0 (headDim' * nHeads') 1\<rparr>;
         norm1' = mkLayerNorm [0] (1 / 10 ^ 6) True modelDim';
         norm2' = mkLayerNorm [0] (1 / 10 ^ 6) True modelDim'
     in (\<lparr>train = True, modelDim = modelDim', headDim = headDim', mlpDim = mlpDim',
          nHeads = nHeads', pDropout = pDropout', pLayerdrop = pLayerdrop',
          w1 = w1', w2 = w2', wq = wq', wk = wk', wv = wv', wf = wf',
          norm1 = norm1', norm2 = norm2'\<rparr>, g))"

subsection \<open>GELU and the MLP\<close>

definition pi_const :: real where
  "pi_const = arccos (- 1)"

definition geluConst1 :: real where
  "geluConst1 = sqrt (2 / pi_const)"

definition geluConst2 :: real where
  "geluConst2 = 44715 / 1000000"

definition gelu :: "tensor \<Rightarrow> tensor" where
  "gelu input =
     (let res = tadd input (smul geluConst2 (tpow input 3));
          res = sadd 1 (ttanh (smul geluConst1 res));
          res = tmul (smul (1 / 2) input) res
      in res)"

definition mlp :: "runtime \<Rightarrow> VisionTransformer \<Rightarrow> tensor \<Rightarrow> rng \<Rightarrow> tensor \<times> rng" where
  "mlp rt blk input g =
     (let pDropout' = (if train blk then pDropout blk else 0);
          output = fl_linear rt (w1 blk) input;
          output = gelu output;
          (output, g) = dropout rt output pDropout' g;
          output = fl_linear rt (w2 blk) output;
          (output, g) = dropout rt output pDropout' g
      in (output, g))"

subsection \<open>Self-attention\<close>

text \<open>
  \<open>selfAttention\<close> in three stages: the projections \<open>q\<close>, \<open>k\<close>, \<open>v\<close> with heads and batch
  folded into the last axis and \<open>q\<close> scaled; the attention weights; and the output
  projection, to which alone dropout is applied.
\<close>

definition attention_qkv :: "runtime \<Rightarrow> VisionTransformer \<Rightarrow> tensor \<Rightarrow> tensor \<times> tensor \<times> tensor" where
  "attention_qkv rt blk x =
     (let B = dimn (dims x) 2;
          q = fl_transpose rt (fl_linear rt (wq blk) x);
          k = fl_transpose rt (fl_linear rt (wk blk) x);
          v = fl_transpose rt (fl_linear rt (wv blk) x);
          q = fl_moddims rt q [- 1, int (headDim blk), int (nHeads blk * B)];
          k = fl_moddims rt k [- 1, int (headDim blk), int (nHeads blk * B)];
          v = fl_moddims rt v [- 1, int (headDim blk), int (nHeads blk * B)];
          q = tdivs q (fsqrt (Fin (real (headDim blk))))
      in (q, k, v))"

definition attention_scores :: "runtime \<Rightarrow> VisionTransformer \<Rightarrow> tensor \<Rightarrow> tensor" where
  "attention_scores rt blk x = (let (q, k, v) = attention_qkv rt blk x in fl_matmulNT rt q k)"

definition attention_weights :: "runtime \<Rightarrow> VisionTransformer \<Rightarrow> tensor \<Rightarrow> tensor" where
  "attention_weights rt blk x = (let scores = attention_scores rt blk x in softmax scores 1)"

definition attention_output :: "runtime \<Rightarrow> VisionTransformer \<Rightarrow> tensor \<Rightarrow> tensor" where
  "attention_output rt blk x =
     (let B = dimn (dims x) 2;
          (q, k, v) = attention_qkv rt blk x;
          attn = attention_weights rt blk x;
          result = fl_matmul rt attn v;
          result = fl_moddims rt result [- 1, int (headDim blk * nHeads blk), int B]
      in fl_linear rt (wf blk) (fl_transpose rt result))"

definition selfAttention :: "runtime \<Rightarrow> VisionTransformer \<Rightarrow> tensor \<Rightarrow> rng \<Rightarrow> tensor \<times> rng" where
  "selfAttention rt blk x g =
     (let pDrop = (if train blk then pDropout blk else 0);
          result = attention_output rt blk x
      in dropout rt result pDrop g)"

subsection \<open>Drop-path and the forward pass\<close>

definition dropPath :: "VisionTransformer \<Rightarrow> tensor \<Rightarrow> rng \<Rightarrow> tensor \<times> rng" where
  "dropPath blk x g =
     (if \<not> train blk then (x, g)
      else
        let C = dimn (dims x) 0; T = dimn (dims x) 1; B = dimn (dims x) 2;
            (u, g) = randu (Dim4 1 1 B 1) g;
            keepMask = tgt u (pLayerdrop blk);
            keepRatio = scalar (af_mean keepMask 2);
            keepMask = tdivs keepMask keepRatio
        in (tmul x (af_tile keepMask (Dim4 C T 1 1)), g))"

definition forward ::
  "runtime \<Rightarrow> VisionTransformer \<Rightarrow> tensor list \<Rightarrow> rng \<Rightarrow> (error + tensor list) \<times> rng" where
  "forward rt blk inputs g =
     (if length inputs \<noteq> 1 then (Inl (RuntimeError ''VisionTransformer forward, >1 inputs''), g)
      else
        let x = hd inputs;
            (a, g) = selfAttention rt blk (fl_layerNorm rt (norm1 blk) x) g;
            (d, g) = dropPath blk a g;
            output = tadd x d;
            (m, g) = mlp rt blk (fl_layerNorm rt (norm2 blk) output) g;
            (d, g) = dropPath blk m g;
            output = tadd output d
        in (Inr [output], g))"

section \<open>Specification-side definitions\<close>

text \<open>
  The checkpoint files in the order in which the constructor reads them, each with the
  element count that the fixed architecture expects, and the check of one file.
\<close>

definition checkpoint_files :: "(string \<times> nat) list" where
  "checkpoint_files =
     [(''.mlp.fc1.weight.bin'', 768 * 3072), (''.mlp.fc1.bias.bin'', 3072),
      (''.mlp.fc2.weight.bin'', 768 * 3072), (''.mlp.fc2.bias.bin'', 768),
      (''.attn.qkv.weight.bin'', 768 * 2304), (''.attn.qkv.bias.bin'', 2304),
      (''.attn.proj.weight.bin'', 768 * 768), (''.attn.proj.bias.bin'', 768),
      (''.norm1.weight.bin'', 768), (''.norm1.bias.bin'', 768),
      (''.norm2.weight.bin'', 768), (''.norm2.bias.bin'', 768)]"

definition count_ok :: "filesystem \<Rightarrow> string \<Rightarrow> string \<times> nat \<Rightarrow> bool" where
  "count_ok fs prefix f = (length (readfloats fs (prefix @ fst f)) = snd f)"

text \<open>
  The stored array as the specification's file format reads a checkpoint file: a weight
  matrix of \<open>cols\<close> columns is flattened row-major, so its element in row \<open>r\<close> and
  column \<open>c\<close> is the float number \<open>r * cols + c\<close> of the file.
\<close>

definition stored_row_major :: "flt list \<Rightarrow> nat \<Rightarrow> nat \<Rightarrow> nat \<Rightarrow> flt" where
  "stored_row_major floats cols r c = floats ! (r * cols + c)"

text \<open>
  The GELU of the specification on one element:
  \<open>0.5 * x * (1 + tanh (sqrt (2 / pi) * (x + 0.044715 * x ^ 3)))\<close>.
\<close>

definition gelu_spec :: "flt \<Rightarrow> flt" where
  "gelu_spec x =
     fmul (fmul (Fin (1 / 2)) x)
       (fadd (Fin 1)
          (ftanh (fmul (Fin (sqrt (2 / pi))) (fadd x (fmul (Fin (44715 / 1000000)) (fpow x 3))))))"

text \<open>
  The two-stage residual pipeline of the specification: a stage adds to its input the
  drop-path of a branch applied to that input;
  the first branch is self-attention after \<open>norm1\<close>, the second the MLP after \<open>norm2\<close>.
\<close>

definition residual_stage ::
  "VisionTransformer \<Rightarrow> (tensor \<Rightarrow> rng \<Rightarrow> tensor \<times> rng) \<Rightarrow> tensor \<Rightarrow> rng \<Rightarrow> tensor \<times> rng" where
  "residual_stage blk branch x g =
     (let (y, g1) = branch x g; (d, g2) = dropPath blk y g1 in (tadd x d, g2))"

definition residual_pipeline :: "runtime \<Rightarrow> VisionTransformer \<Rightarrow> tensor \<Rightarrow> rng \<Rightarrow> tensor \<times> rng" where
  "residual_pipeline rt blk x g =
     (let (output, g1) =
            residual_stage blk (\<lambda>y. selfAttention rt blk (fl_layerNorm rt (norm1 blk) y)) x g
      in residual_stage blk (\<lambda>y. mlp rt blk (fl_layerNorm rt (norm2 blk) y)) output g1)"

section \<open>A reference runtime and small inputs\<close>

text \<open>
  An instance of the runtime, on which the block runs on concrete inputs: the linear map
  \<open>weight * input + bias\<close>, layer normalization over the first axis, transposition of the
  first two axes, reshaping, the batched matrix products, inverted dropout, and a sampler
  that clips the next uniform samples.
\<close>

definition ref_linear :: "Linear \<Rightarrow> tensor \<Rightarrow> tensor" where
  "ref_linear l x =
     (let nOut = dimn (dims (weight l)) 0; nIn = dimn (dims (weight l)) 1;
          cols = elements (dims x) div nIn
      in \<lparr>dims = set_dim (dims x) 0 nOut,
          elems = map (\<lambda>idx. let r = idx mod nOut; c = idx div nOut
                             in fadd (fsum (map (\<lambda>i. fmul (at2 (weight l) r i) (elems x ! (i + nIn * c)))
                                            [0..<nIn]))
                                     (elems (bias l) ! r))
                    [0..<nOut * cols]\<rparr>)"

definition ref_layerNorm :: "LayerNorm \<Rightarrow> tensor \<Rightarrow> tensor" where
  "ref_layerNorm layer x =
     (let d0 = dimn (dims x) 0
      in \<lparr>dims = dims x,
          elems = map (\<lambda>idx.
                    let col = map (\<lambda>r. elems x ! (r + d0 * (idx div d0))) [0..<d0];
                        mean = fdiv (fsum col) (Fin (real d0));
                        dev = (\<lambda>e. fadd e (fmul (Fin (- 1)) mean));
                        var = fdiv (fsum (map (\<lambda>e. fmul (dev e) (dev e)) col)) (Fin (real d0));
                        normed = fdiv (dev (elems x ! idx)) (fsqrt (fadd var (Fin (epsilon layer))))
                    in fadd (fmul normed (elems (params layer ! 0) ! (idx mod d0)))
                            (elems (params layer ! 1) ! (idx mod d0)))
                  [0..<elements (dims x)]\<rparr>)"

definition ref_transpose :: "tensor \<Rightarrow> tensor" where
  "ref_transpose x =
     (let d0 = dimn (dims x) 0; d1 = dimn (dims x) 1
      in \<lparr>dims = set_dim (set_dim (dims x) 0 d1) 1 d0,
          elems = map (\<lambda>idx. let j = idx mod d1; i = (idx div d1) mod d0; r = idx div (d0 * d1)
                             in elems x ! (i + d0 * (j + d1 * r)))
                    [0..<elements (dims x)]\<rparr>)"

fun ref_moddims :: "tensor \<Rightarrow> int list \<Rightarrow> tensor" where
  "ref_moddims x [a, b, c] =
     (let known = nat (if a = - 1 then 1 else a) * nat (if b = - 1 then 1 else b)
                    * nat (if c = - 1 then 1 else c);
          infer = (\<lambda>d. if d = - 1 then elements (dims x) div known else nat d)
      in \<lparr>dims = Dim4 (infer a) (infer b) (infer c) 1, elems = elems x\<rparr>)"
| "ref_moddims x ds = x"

definition ref_matmul :: "tensor \<Rightarrow> tensor \<Rightarrow> tensor" where
  "ref_matmul a b =
     (let m = dimn (dims a) 0; k = dimn (dims a) 1; p = dimn (dims b) 1; n = dimn (dims a) 2
      in \<lparr>dims = Dim4 m p n 1,
          elems = map (\<lambda>idx. let i = idx mod m; j = (idx div m) mod p; r = idx div (m * p)
                             in fsum (map (\<lambda>l. fmul (at3 a i l r) (at3 b l j r)) [0..<k]))
                    [0..<m * p * n]\<rparr>)"

definition ref_matmulNT :: "tensor \<Rightarrow> tensor \<Rightarrow> tensor" where
  "ref_matmulNT a b =
     (let m = dimn (dims a) 0; k = dimn (dims a) 1; p = dimn (dims b) 0; n = dimn (dims a) 2
      in \<lparr>dims = Dim4 m p n 1,
          elems = map (\<lambda>idx. let i = idx mod m; j = (idx div m) mod p; r = idx div (m * p)
                             in fsum (map (\<lambda>l. fmul (at3 a i l r) (at3 b j l r)) [0..<k]))
                    [0..<m * p * n]\<rparr>)"

definition ref_dropoutSample :: "tensor \<Rightarrow> real \<Rightarrow> rng \<Rightarrow> tensor \<times> rng" where
  "ref_dropoutSample x p g =
     (let (u, g') = randu (dims x) g in (smul (1 / (1 - p)) (tmul (tgt u p) x), g'))"

definition ref_truncNormalSample :: "nat \<Rightarrow> real \<Rightarrow> rng \<Rightarrow> flt list \<times> rng" where
  "ref_truncNormalSample n stdv g =
     (map (\<lambda>i. Fin (max (- 2 * stdv) (min (2 * stdv) (g i)))) [0..<n], \<lambda>i. g (i + n))"

definition ref_runtime :: runtime where
  "ref_runtime =
     \<lparr>fl_linear = ref_linear, fl_layerNorm = ref_layerNorm, fl_transpose = ref_transpose,
      fl_moddims = ref_moddims, fl_matmul = ref_matmul, fl_matmulNT = ref_matmulNT,
      fl_dropoutSample = ref_dropoutSample, fl_truncNormalSample = ref_truncNormalSample\<rparr>"

text \<open>
  A block of model dimension 2 with two heads of dimension 1, and an input of two
  positions in a batch of one.
\<close>

definition tiny_block :: VisionTransformer where
  "tiny_block =
     fst (VisionTransformer_init ref_runtime 2 1 2 2 (1 / 10) (1 / 10) (\<lambda>i. real i / 100))"

definition tiny_input :: tensor where
  "tiny_input = \<lparr>dims = Dim4 2 2 1 1, elems = [Fin 1, Fin 2, Fin 3, Fin 5]\<rparr>"

text \<open>
  A checkpoint under the prefix \<open>vit\<close>: files of zero bytes of the expected sizes, except
  that the fused QKV files are marked by the row blocks of the column-major reading: the
  first byte of the float number \<open>f\<close> is \<open>f mod 2304 div 768\<close>, the block of the row
  \<open>f mod 2304\<close>.
\<close>

definition zero_file :: "nat \<Rightarrow> byte list" where
  "zero_file n = replicate (4 * n) 0"

definition marked_file :: "nat \<Rightarrow> nat \<Rightarrow> byte list" where
  "marked_file rows cols =
     map (\<lambda>k. if k mod 4 = 0 then of_nat ((k div 4) mod rows div 768) else 0)
       [0..<4 * (rows * cols)]"

definition marked_checkpoint :: filesystem where
  "marked_checkpoint = map_of
     [(''vit.mlp.fc1.weight.bin'', zero_file (768 * 3072)),
      (''vit.mlp.fc1.bias.bin'', zero_file 3072),
      (''vit.mlp.fc2.weight.bin'', zero_file (768 * 3072)),
      (''vit.mlp.fc2.bias.bin'', zero_file 768),
      (''vit.attn.qkv.weight.bin'', marked_file 2304 768),
      (''vit.attn.qkv.bias.bin'', marked_file 2304 1),
      (''vit.attn.proj.weight.bin'', zero_file (768 * 768)),
      (''vit.attn.proj.bias.bin'', zero_file 768),
      (''vit.norm1.weight.bin'', zero_file 768),
      (''vit.norm1.bias.bin'', zero_file 768),
      (''vit.norm2.weight.bin'', zero_file 768),
      (''vit.norm2.bias.bin'', zero_file 768)]"

text \<open>
  The same checkpoint with the fused QKV weight file marked by the row blocks of the
  row-major reading: the first byte of the float number \<open>f\<close> is \<open>f div 768 div 768\<close>, the
  block of the row \<open>f div 768\<close>.
\<close>

definition rowmajor_file :: "nat \<Rightarrow> nat \<Rightarrow> byte list" where
  "rowmajor_file rows cols =
     map (\<lambda>k. if k mod 4 = 0 then of_nat ((k div 4) div cols div 768) else 0)
       [0..<4 * (rows * cols)]"

definition rowmajor_checkpoint :: filesystem where
  "rowmajor_checkpoint =
     marked_checkpoint(''vit.attn.qkv.weight.bin'' \<mapsto> rowmajor_file 2304 768)"

section \<open>Lemmas: arrays and the checkpoint loader\<close>

lemma length_readfloats:
  "length (readfloats fs p) = (case fs p of None \<Rightarrow> 0 | Some bytes \<Rightarrow> length bytes div 4)"
  by (simp add: readfloats_def split: option.splits)

lemma at2_seq_rows:
  assumes "lo \<le> hi" "i \<le> hi - lo" "j < dimn (dims a) 1"
  shows "at2 (seq_rows a lo hi) i j = at2 a (lo + i) j"
proof -
  define n where "n = hi + 1 - lo"
  have n: "0 < n" "i < n" using assms by (simp_all add: n_def)
  have lt: "i + n * j < n * dimn (dims a) 1"
  proof -
    have "i + n * j < n + n * j" using n by simp
    also have "\<dots> = n * Suc j" by simp
    also have "\<dots> \<le> n * dimn (dims a) 1" using assms(3) by (intro mult_le_mono2) simp
    finally show ?thesis .
  qed
  have md: "(i + n * j) mod n = i" "(i + n * j) div n = j" using n by simp_all
  have e: "elems (seq_rows a lo hi) =
      map (\<lambda>idx. elems a ! (lo + idx mod n + dimn (dims a) 0 * (idx div n)))
        [0..<n * dimn (dims a) 1]"
    and d: "dimn (dims (seq_rows a lo hi)) 0 = n"
    by (simp_all add: seq_rows_def Let_def n_def)
  have "at2 (seq_rows a lo hi) i j = elems (seq_rows a lo hi) ! (i + n * j)"
    by (simp add: at2_def d)
  also have "\<dots> = elems a ! (lo + i + dimn (dims a) 0 * j)"
    using lt md by (simp add: e)
  finally show ?thesis by (simp add: at2_def)
qed

lemma at2_af_array:
  assumes "i < d0" "j < d1" "d0 * d1 \<le> length xs"
  shows "at2 (af_array (Dim4 d0 d1 1 1) xs) i j = xs ! (i + d0 * j)"
proof -
  have "i + d0 * j < d0 + d0 * j" using assms by simp
  also have "\<dots> = d0 * Suc j" by simp
  also have "\<dots> \<le> d0 * d1" using assms(2) by (intro mult_le_mono2) simp
  finally show ?thesis by (simp add: at2_def af_array_def)
qed

lemma dims_seq_rows: "dims (seq_rows a lo hi) = Dim4 (hi + 1 - lo) (dimn (dims a) 1) 1 1"
  by (simp add: seq_rows_def Let_def)

text \<open>What a successful load says about the fused QKV files and the three projections.\<close>

lemma load_Inr_qkv:
  assumes "VisionTransformer_load fs prefix = Inr blk"
  shows "length (readfloats fs (prefix @ ''.attn.qkv.weight.bin'')) = 768 * 2304"
    and "length (readfloats fs (prefix @ ''.attn.qkv.bias.bin'')) = 2304"
    and "wq blk =
      \<lparr>weight = seq_rows (af_array (Dim4 2304 768 1 1)
                  (readfloats fs (prefix @ ''.attn.qkv.weight.bin''))) 0 767,
       bias = seq_rows (af_array (Dim4 2304 1 1 1)
                  (readfloats fs (prefix @ ''.attn.qkv.bias.bin''))) 0 767\<rparr>"
    and "wk blk =
      \<lparr>weight = seq_rows (af_array (Dim4 2304 768 1 1)
                  (readfloats fs (prefix @ ''.attn.qkv.weight.bin''))) 768 1535,
       bias = seq_rows (af_array (Dim4 2304 1 1 1)
                  (readfloats fs (prefix @ ''.attn.qkv.bias.bin''))) 768 1535\<rparr>"
    and "wv blk =
      \<lparr>weight = seq_rows (af_array (Dim4 2304 768 1 1)
                  (readfloats fs (prefix @ ''.attn.qkv.weight.bin''))) 1536 2303,
       bias = seq_rows (af_array (Dim4 2304 1 1 1)
                  (readfloats fs (prefix @ ''.attn.qkv.bias.bin''))) 1536 2303\<rparr>"
  using assms unfolding VisionTransformer_load_def Let_def
  by (auto split: if_splits)

lemma load_Inr_probabilities:
  assumes "VisionTransformer_load fs prefix = Inr blk"
  shows "pDropout blk = 0" and "pLayerdrop blk = 0"
  using assms unfolding VisionTransformer_load_def Let_def
  by (auto split: if_splits)

text \<open>The loader fails on the first file of the read order whose count is wrong.\<close>

lemma load_first_bad:
  "(case find (\<lambda>f. \<not> count_ok fs prefix f) checkpoint_files of
      Some f \<Rightarrow> VisionTransformer_load fs prefix = Inl (RuntimeError (fst f))
    | None \<Rightarrow> (\<exists>blk. VisionTransformer_load fs prefix = Inr blk))"
  unfolding VisionTransformer_load_def checkpoint_files_def count_ok_def Let_def
  by simp

lemma marked_ok: "\<forall>f \<in> set checkpoint_files. count_ok marked_checkpoint ''vit'' f"
  by (simp add: checkpoint_files_def count_ok_def length_readfloats marked_checkpoint_def
      zero_file_def marked_file_def)

lemma marked_loads: "\<exists>blk. VisionTransformer_load marked_checkpoint ''vit'' = Inr blk"
proof -
  have "find (\<lambda>f. \<not> count_ok marked_checkpoint ''vit'' f) checkpoint_files = None"
    using marked_ok by (simp add: find_None_iff)
  then show ?thesis
    using load_first_bad [of marked_checkpoint "''vit''"] by simp
qed

lemma marked_weight_floats:
  "readfloats marked_checkpoint ''vit.attn.qkv.weight.bin'' ! 16133 = Fin 0"
  "readfloats marked_checkpoint ''vit.attn.qkv.weight.bin'' ! 16901 = Fin (1 / 2 ^ 149)"
  "readfloats marked_checkpoint ''vit.attn.qkv.weight.bin'' ! 17669 = Fin (2 / 2 ^ 149)"
  by (simp_all add: readfloats_def marked_checkpoint_def marked_file_def bits_of_bytes_def
      float_of_bits_def Let_def)

lemma marked_bias_floats:
  "readfloats marked_checkpoint ''vit.attn.qkv.bias.bin'' ! 5 = Fin 0"
  "readfloats marked_checkpoint ''vit.attn.qkv.bias.bin'' ! 773 = Fin (1 / 2 ^ 149)"
  "readfloats marked_checkpoint ''vit.attn.qkv.bias.bin'' ! 1541 = Fin (2 / 2 ^ 149)"
  by (simp_all add: readfloats_def marked_checkpoint_def marked_file_def bits_of_bytes_def
      float_of_bits_def Let_def)

lemma rowmajor_loads: "\<exists>blk. VisionTransformer_load rowmajor_checkpoint ''vit'' = Inr blk"
proof -
  have "\<forall>f \<in> set checkpoint_files. count_ok rowmajor_checkpoint ''vit'' f"
    by (simp add: checkpoint_files_def count_ok_def length_readfloats rowmajor_checkpoint_def
        marked_checkpoint_def zero_file_def marked_file_def rowmajor_file_def)
  then have "find (\<lambda>f. \<not> count_ok rowmajor_checkpoint ''vit'' f) checkpoint_files = None"
    by (simp add: find_None_iff)
  then show ?thesis
    using load_first_bad [of rowmajor_checkpoint "''vit''"] by simp
qed

lemma rowmajor_weight_floats:
  "readfloats rowmajor_checkpoint ''vit.attn.qkv.weight.bin'' ! 691205 = Fin (1 / 2 ^ 149)"
  "readfloats rowmajor_checkpoint ''vit.attn.qkv.weight.bin'' ! 4140 = Fin 0"
  by (simp_all add: readfloats_def rowmajor_checkpoint_def rowmajor_file_def bits_of_bytes_def
      float_of_bits_def Let_def)

text \<open>An entry of the query weight of a loaded block, as a float of the fused file.\<close>

lemma load_wq_entry:
  assumes load: "VisionTransformer_load fs prefix = Inr blk"
    and i: "i < 768" and j: "j < 768"
  shows "at2 (weight (wq blk)) i j =
         readfloats fs (prefix @ ''.attn.qkv.weight.bin'') ! (i + 2304 * j)"
proof -
  let ?F = "readfloats fs (prefix @ ''.attn.qkv.weight.bin'')"
  let ?W = "af_array (Dim4 2304 768 1 1) ?F"
  note L = load_Inr_qkv [OF load]
  have jW: "j < dimn (dims ?W) 1" using j by (simp add: af_array_def)
  have "at2 (seq_rows ?W 0 767) i j = at2 ?W (0 + i) j"
    using i by (intro at2_seq_rows [OF _ _ jW]) simp_all
  also have "\<dots> = ?F ! (0 + i + 2304 * j)"
    using i j L(1) by (intro at2_af_array) simp_all
  finally show ?thesis by (simp add: L(3))
qed

section \<open>Lemmas: elementwise operations, drop-path, softmax\<close>

lemma map2_same: "map2 f (map g xs) (map h xs) = map (\<lambda>x. f (g x) (h x)) xs"
  by (induction xs) simp_all

lemma map2_same_left: "map2 f xs (map h xs) = map (\<lambda>x. f x (h x)) xs"
  using map2_same [of f "\<lambda>x. x" xs h] by simp

lemma geluConst1_eq: "geluConst1 = sqrt (2 / pi)"
  by (simp add: geluConst1_def pi_const_def)

lemma elems_gelu: "elems (gelu input) = map gelu_spec (elems input)"
  by (simp add: gelu_def Let_def tadd_def smul_def tpow_def sadd_def ttanh_def tmul_def
      map2_same map2_same_left gelu_spec_def geluConst1_eq geluConst2_def o_def)

lemma dims_gelu: "dims (gelu input) = dims input"
  by (simp add: gelu_def Let_def tadd_def smul_def tpow_def sadd_def ttanh_def tmul_def)

lemma foldl_fadd_Fin: "foldl fadd (Fin a) (map Fin xs) = Fin (a + sum_list xs)"
  by (induction xs arbitrary: a) (simp_all add: add.assoc)

lemma fsum_Fin: "fsum (map Fin xs) = Fin (sum_list xs)"
  by (simp add: fsum_def foldl_fadd_Fin)

lemma fsum_Fin_upt: "fsum (map (\<lambda>j. Fin (f j)) [0..<n]) = Fin (\<Sum>j<n. f j)"
proof -
  have "map (\<lambda>j. Fin (f j)) [0..<n] = map Fin (map f [0..<n])" by simp
  then have "fsum (map (\<lambda>j. Fin (f j)) [0..<n]) = Fin (sum_list (map f [0..<n]))"
    by (simp only: fsum_Fin)
  also have "sum_list (map f [0..<n]) = (\<Sum>j<n. f j)"
    by (simp add: interv_sum_list_conv_sum_set_nat atLeast0LessThan)
  finally show ?thesis .
qed

lemma map_const_upt: "map (\<lambda>i. c) [0..<n] = replicate n c"
  by (induction n) (simp_all add: replicate_append_same)

lemma fsum_zeros: "fsum (replicate n (Fin 0)) = Fin 0"
proof -
  have "fsum (map Fin (replicate n 0)) = Fin (sum_list (replicate n 0))" by (rule fsum_Fin)
  then show ?thesis by (simp add: sum_list_replicate)
qed

lemma elems_randu: "elems (fst (randu (Dim4 1 1 B 1) g)) = map (\<lambda>i. Fin (g i)) [0..<B]"
  by (simp add: randu_def)

lemma dims_randu: "dims (fst (randu d g)) = d"
  by (simp add: randu_def)

text \<open>When no sample exceeds the drop probability, the keep mask is zero everywhere.\<close>

lemma keepMask_all_dropped:
  assumes "\<forall>i<B. g i \<le> p"
  shows "tgt (fst (randu (Dim4 1 1 B 1) g)) p =
         \<lparr>dims = Dim4 1 1 B 1, elems = replicate B (Fin 0)\<rparr>"
proof -
  have "map (\<lambda>e. if fgt e (Fin p) then Fin 1 else Fin 0) (map (\<lambda>i. Fin (g i)) [0..<B]) =
        map (\<lambda>i. Fin 0) [0..<B]"
    using assms by (auto simp: o_def not_less)
  then have "map (\<lambda>e. if fgt e (Fin p) then Fin 1 else Fin 0)
               (elems (fst (randu (Dim4 1 1 B 1) g))) = replicate B (Fin 0)"
    by (simp only: elems_randu map_const_upt)
  then show ?thesis
    by (simp only: tgt_def dims_randu)
qed

lemma mean_zero_mask:
  assumes "0 < B"
  shows "scalar (af_mean \<lparr>dims = Dim4 1 1 B 1, elems = replicate B (Fin 0)\<rparr> 2) = Fin 0"
proof -
  have "map (\<lambda>j. replicate B (Fin 0) ! j) [0..<B] = map (\<lambda>j. Fin 0) [0..<B]"
    by (intro map_cong) auto
  then show ?thesis
    using assms by (simp add: scalar_def af_mean_def Let_def map_const_upt fsum_zeros)
qed

lemma tile_const:
  assumes "dims a = Dim4 1 1 B 1" "elems a = replicate B c" "0 < B"
  shows "af_tile a (Dim4 C T 1 1) = \<lparr>dims = Dim4 C T B 1, elems = replicate (C * T * B) c\<rparr>"
proof -
  have "map (\<lambda>idx. replicate B c ! (idx div (C * T) mod B)) [0..<C * T * B] =
        map (\<lambda>idx. c) [0..<C * T * B]"
    using assms(3) by (intro map_cong) auto
  then show ?thesis
    using assms by (simp add: Let_def map_const_upt)
qed

lemma fmul_NaN: "fmul x NaN = NaN"
  by (cases x) simp_all

lemma map2_fmul_NaN: "n = length xs \<Longrightarrow> map2 fmul xs (replicate n NaN) = replicate n NaN"
proof (induction xs arbitrary: n)
  case Nil
  then show ?case by simp
next
  case (Cons x xs)
  then show ?case by (cases n) (simp_all add: fmul_NaN)
qed

lemma dropPath_train:
  assumes "train blk"
  shows "fst (dropPath blk x g) =
     tmul x (af_tile
       (tdivs (tgt (fst (randu (Dim4 1 1 (dimn (dims x) 2) 1) g)) (pLayerdrop blk))
          (scalar (af_mean (tgt (fst (randu (Dim4 1 1 (dimn (dims x) 2) 1) g)) (pLayerdrop blk)) 2)))
       (Dim4 (dimn (dims x) 0) (dimn (dims x) 1) 1 1))"
  using assms by (simp add: dropPath_def Let_def split_def)

text \<open>
  In training mode, a draw in which no sample of the batch exceeds the drop probability
  gives a keep ratio of zero, and the scaled mask and the output are NaN everywhere.
\<close>

lemma dropPath_all_dropped:
  assumes "train blk" and "dims x = Dim4 C T B 1" and "0 < B"
    and "\<forall>i<B. g i \<le> pLayerdrop blk"
    and "length (elems x) = C * T * B"
  shows "scalar (af_mean (tgt (fst (randu (Dim4 1 1 B 1) g)) (pLayerdrop blk)) 2) = Fin 0"
    and "elems (fst (dropPath blk x g)) = replicate (C * T * B) NaN"
proof -
  let ?m = "\<lparr>dims = Dim4 1 1 B 1, elems = replicate B (Fin 0)\<rparr>"
  let ?n = "\<lparr>dims = Dim4 1 1 B 1, elems = replicate B NaN\<rparr>"
  have m: "tgt (fst (randu (Dim4 1 1 B 1) g)) (pLayerdrop blk) = ?m"
    by (rule keepMask_all_dropped [OF assms(4)])
  have r: "scalar (af_mean ?m 2) = Fin 0"
    by (rule mean_zero_mask [OF assms(3)])
  have d: "tdivs ?m (Fin 0) = ?n"
    by (simp add: tdivs_def)
  have t: "af_tile ?n (Dim4 C T 1 1) = \<lparr>dims = Dim4 C T B 1, elems = replicate (C * T * B) NaN\<rparr>"
    by (rule tile_const) (simp_all add: assms(3))
  have dx: "dimn (dims x) 0 = C" "dimn (dims x) 1 = T" "dimn (dims x) 2 = B"
    by (simp_all add: assms(2))
  have out: "fst (dropPath blk x g) =
      tmul x \<lparr>dims = Dim4 C T B 1, elems = replicate (C * T * B) NaN\<rparr>"
    by (simp only: dropPath_train [OF assms(1)] dx m r d t)
  show "scalar (af_mean (tgt (fst (randu (Dim4 1 1 B 1) g)) (pLayerdrop blk)) 2) = Fin 0"
    by (simp only: m r)
  show "elems (fst (dropPath blk x g)) = replicate (C * T * B) NaN"
    using assms(5) by (simp add: out tmul_def map2_fmul_NaN)
qed

lemma index3_bound:
  assumes "i < d0" "j < d1" "k < d2"
  shows "i + d0 * (j + d1 * k) < d0 * d1 * (d2 :: nat)"
proof -
  have "j + d1 * k < d1 + d1 * k" using assms by simp
  also have "\<dots> = d1 * Suc k" by simp
  also have "\<dots> \<le> d1 * d2" using assms(3) by (intro mult_le_mono2) simp
  finally have jk: "Suc (j + d1 * k) \<le> d1 * d2" by simp
  have "i + d0 * (j + d1 * k) < d0 + d0 * (j + d1 * k)" using assms by simp
  also have "\<dots> = d0 * Suc (j + d1 * k)" by simp
  also have "\<dots> \<le> d0 * (d1 * d2)" using jk by (intro mult_le_mono2)
  finally show ?thesis by (simp add: mult.assoc)
qed

lemma is_fin_the_fin: "is_fin e \<Longrightarrow> e = Fin (the_fin e)"
  by (cases e) simp_all

text \<open>
  On a three-axis array of finite values, the softmax along axis 1 sums to one over that
  axis, for every position on the other two axes.
\<close>

lemma softmax_row_sum:
  assumes d: "dims a = Dim4 d0 d1 d2 1"
    and len: "length (elems a) = d0 * d1 * d2"
    and fin: "\<forall>e \<in> set (elems a). is_fin e"
    and i: "i < d0" and k: "k < d2" and pos: "0 < d1"
  shows "fsum (map (\<lambda>j. at3 (softmax a 1) i j k) [0..<d1]) = Fin 1"
proof -
  define idx where "idx j = i + d0 * (j + d1 * k)" for j
  define x where "x j = the_fin (elems a ! idx j)" for j
  define S where "S = (\<Sum>j<d1. exp (x j))"
  have bound: "idx j < length (elems a)" if "j < d1" for j
    unfolding idx_def len using i that k by (rule index3_bound)
  have val: "elems a ! idx j = Fin (x j)" if "j < d1" for j
    unfolding x_def using fin bound [OF that] by (intro is_fin_the_fin) simp
  have S_pos: "0 < S"
    unfolding S_def using pos by (intro sum_pos) auto
  have coord: "(idx j div d0) mod d1 = j" if "j < d1" for j
    using i that by (simp add: idx_def)
  have line: "idx j - j * d0 + j' * d0 = idx j'" for j j'
    by (simp add: idx_def algebra_simps)
  have denom: "fsum (map (\<lambda>j'. fexp (elems a ! idx j')) [0..<d1]) = Fin S"
  proof -
    have "map (\<lambda>j'. fexp (elems a ! idx j')) [0..<d1] = map (\<lambda>j'. Fin (exp (x j'))) [0..<d1]"
      by (intro map_cong) (simp_all add: val)
    then show ?thesis by (simp only: fsum_Fin_upt S_def)
  qed
  have sd: "dimn (dims (softmax a 1)) 0 = d0" "dimn (dims (softmax a 1)) 1 = d1"
    by (simp_all add: softmax_def Let_def d)
  have entry: "at3 (softmax a 1) i j k = Fin (exp (x j) / S)" if "j < d1" for j
  proof -
    have "at3 (softmax a 1) i j k = elems (softmax a 1) ! idx j"
      by (simp only: at3_def sd idx_def)
    also have "\<dots> = fdiv (fexp (elems a ! idx j))
        (fsum (map (\<lambda>j'. fexp (elems a ! (idx j - ((idx j div d0) mod d1) * d0 + j' * d0))) [0..<d1]))"
      using bound [OF that] by (simp add: softmax_def Let_def d)
    also have "\<dots> = fdiv (fexp (elems a ! idx j)) (fsum (map (\<lambda>j'. fexp (elems a ! idx j')) [0..<d1]))"
      by (simp only: coord [OF that] line)
    also have "\<dots> = Fin (exp (x j) / S)"
      using S_pos by (simp add: denom val [OF that])
    finally show ?thesis .
  qed
  have "map (\<lambda>j. at3 (softmax a 1) i j k) [0..<d1] = map (\<lambda>j. Fin (exp (x j) / S)) [0..<d1]"
  proof (rule map_cong [OF refl])
    fix j assume "j \<in> set [0..<d1]"
    then have "j < d1" by simp
    then show "at3 (softmax a 1) i j k = Fin (exp (x j) / S)" by (rule entry)
  qed
  then have "fsum (map (\<lambda>j. at3 (softmax a 1) i j k) [0..<d1]) = Fin (\<Sum>j<d1. exp (x j) / S)"
    by (simp only: fsum_Fin_upt)
  also have "(\<Sum>j<d1. exp (x j) / S) = S / S"
    unfolding S_def by (rule sum_divide_distrib [symmetric])
  also have "\<dots> = 1" using S_pos by simp
  finally show ?thesis .
qed

section \<open>Lemmas: the block on the reference runtime\<close>

lemma dropout_zero: "dropout rt x 0 g = (x, g)"
  by (simp add: dropout_def)

lemma upt_small: "[0..<2] = [0, 1]" "[0..<4] = [0, 1, 2, 3]" "[0..<8] = [0, 1, 2, 3, 4, 5, 6, 7]"
  by (simp_all add: upt_rec)

lemma tiny_block_flags:
  "train tiny_block" "pDropout tiny_block = 1 / 10" "pLayerdrop tiny_block = 1 / 10"
  by (simp_all add: tiny_block_def VisionTransformer_init_def Let_def split_def)

lemma tiny_scores:
  "dims (attention_scores ref_runtime tiny_block tiny_input) = Dim4 2 2 2 1"
  "length (elems (attention_scores ref_runtime tiny_block tiny_input)) = 2 * 2 * 2"
  by (simp_all add: attention_scores_def attention_qkv_def tiny_block_def tiny_input_def
      VisionTransformer_init_def initLinear_def truncNormal_def ref_runtime_def
      ref_linear_def ref_transpose_def ref_matmulNT_def ref_truncNormalSample_def
      tdivs_def Let_def split_def fl_constant_def)

lemma tiny_scores_finite:
  "\<forall>e \<in> set (elems (attention_scores ref_runtime tiny_block tiny_input)). is_fin e"
  by (simp add: attention_scores_def attention_qkv_def tiny_block_def tiny_input_def
      VisionTransformer_init_def initLinear_def truncNormal_def ref_runtime_def
      ref_linear_def ref_transpose_def ref_matmulNT_def ref_truncNormalSample_def
      tdivs_def Let_def split_def fl_constant_def upt_small at2_def at3_def fsum_def)

text \<open>
  The shapes that the construction from a configuration gives the six linear sub-modules:
  each weight is \<open>out \<times> in\<close>; the bias has the length of the output dimension for
  \<open>w1\<close>, \<open>w2\<close>, \<open>wq\<close>, \<open>wk\<close>, \<open>wv\<close>, and the length of the input dimension for \<open>wf\<close>.
\<close>

lemma init_linear_shapes:
  fixes rt :: runtime and g :: rng and mdim hdim mlpd nh :: nat and pd pl :: real
  defines "blk \<equiv> fst (VisionTransformer_init rt mdim hdim mlpd nh pd pl g)"
  shows "dims (weight (w1 blk)) = Dim4 mlpd mdim 1 1 \<and> dims (bias (w1 blk)) = Dim4 mlpd 1 1 1"
    and "dims (weight (w2 blk)) = Dim4 mdim mlpd 1 1 \<and> dims (bias (w2 blk)) = Dim4 mdim 1 1 1"
    and "dims (weight (wq blk)) = Dim4 (hdim * nh) mdim 1 1 \<and> dims (bias (wq blk)) = Dim4 (hdim * nh) 1 1 1"
    and "dims (weight (wk blk)) = Dim4 (hdim * nh) mdim 1 1 \<and> dims (bias (wk blk)) = Dim4 (hdim * nh) 1 1 1"
    and "dims (weight (wv blk)) = Dim4 (hdim * nh) mdim 1 1 \<and> dims (bias (wv blk)) = Dim4 (hdim * nh) 1 1 1"
    and "dims (weight (wf blk)) = Dim4 mdim (hdim * nh) 1 1 \<and> dims (bias (wf blk)) = Dim4 (hdim * nh) 1 1 1"
  by (simp_all add: blk_def VisionTransformer_init_def initLinear_def truncNormal_def
      fl_constant_def Let_def split_def)

section \<open>The claims\<close>

text \<open>
  C1. On an input collection of one tensor \<open>x\<close>, \<open>forward\<close> computes the two-stage
  residual pipeline, \<open>x + dropPath (selfAttention (norm1 x))\<close> and then the same with
  \<open>mlp\<close> and \<open>norm2\<close> on that output, and returns the result as a collection of one
  tensor; the random generator is threaded through the stages in this order.
\<close>

theorem forward_residual_pipeline:
  "forward rt blk [x] g =
     (Inr [fst (residual_pipeline rt blk x g)], snd (residual_pipeline rt blk x g))"
  by (simp add: forward_def residual_pipeline_def residual_stage_def Let_def split_def)

theorem forward_residual_pipeline_witness:
  "forward ref_runtime tiny_block [tiny_input] (\<lambda>i. 1 / 2) =
     (Inr [fst (residual_pipeline ref_runtime tiny_block tiny_input (\<lambda>i. 1 / 2))],
      snd (residual_pipeline ref_runtime tiny_block tiny_input (\<lambda>i. 1 / 2)))"
  by (rule forward_residual_pipeline)

text \<open>
  C2, as stated: for any file contents that pass the size validation, the rows of the
  query, key and value weights are the first, second and third block of 768 rows of the
  stored array. The specification's file format stores a weight matrix row-major, and for
  that stored array the claim fails: on a checkpoint whose fused weight file is marked by
  its row-major row blocks, the entry in row 5 and column 300 of the query weight is the
  stored entry in row 900 and column 5, which lies in the key block, and not the stored
  entry in row 5 and column 300.
\<close>

theorem qkv_row_major_counterexample:
  "\<not> isl (VisionTransformer_load rowmajor_checkpoint ''vit'') \<and>
   at2 (weight (wq (projr (VisionTransformer_load rowmajor_checkpoint ''vit'')))) 5 300 =
     stored_row_major (readfloats rowmajor_checkpoint ''vit.attn.qkv.weight.bin'') 768 900 5 \<and>
   stored_row_major (readfloats rowmajor_checkpoint ''vit.attn.qkv.weight.bin'') 768 900 5 =
     Fin (1 / 2 ^ 149) \<and>
   stored_row_major (readfloats rowmajor_checkpoint ''vit.attn.qkv.weight.bin'') 768 5 300 = Fin 0 \<and>
   at2 (weight (wq (projr (VisionTransformer_load rowmajor_checkpoint ''vit'')))) 5 300 \<noteq>
     stored_row_major (readfloats rowmajor_checkpoint ''vit.attn.qkv.weight.bin'') 768 5 300"
proof -
  obtain blk where load: "VisionTransformer_load rowmajor_checkpoint ''vit'' = Inr blk"
    using rowmajor_loads by blast
  have "at2 (weight (wq blk)) 5 300 =
        readfloats rowmajor_checkpoint (''vit'' @ ''.attn.qkv.weight.bin'') ! (5 + 2304 * 300)"
    by (rule load_wq_entry [OF load]) simp_all
  then have e: "at2 (weight (wq blk)) 5 300 = Fin (1 / 2 ^ 149)"
    by (simp add: rowmajor_weight_floats)
  show ?thesis
    by (simp add: load e stored_row_major_def rowmajor_weight_floats)
qed

text \<open>
  C2, amended: when a checkpoint loads, the floats of the fused QKV weight file are read
  as an array of 2304 rows and 768 columns in the column-major storage order of the array
  library, so that its element in row \<open>r\<close> and column \<open>j\<close> is the float number
  \<open>r + 2304 * j\<close> of the file. This array is cut into three blocks of 768 consecutive
  rows, which become the weights of the query, key and value projections in this order,
  and the bias of 2304 elements is cut the same way into three segments of 768. So for any
  file contents that pass the size validation, the rows of the three weights are the
  first, second and third block of 768 rows of the column-major array.
\<close>

theorem qkv_split:
  fixes fs :: filesystem and prefix :: string
  defines "F \<equiv> readfloats fs (prefix @ ''.attn.qkv.weight.bin'')"
    and "G \<equiv> readfloats fs (prefix @ ''.attn.qkv.bias.bin'')"
  defines "W \<equiv> af_array (Dim4 2304 768 1 1) F"
  assumes load: "VisionTransformer_load fs prefix = Inr blk"
    and i: "i < 768" and j: "j < 768"
  shows "dims (weight (wq blk)) = Dim4 768 768 1 1 \<and>
         dims (weight (wk blk)) = Dim4 768 768 1 1 \<and>
         dims (weight (wv blk)) = Dim4 768 768 1 1 \<and>
         dims (bias (wq blk)) = Dim4 768 1 1 1 \<and>
         dims (bias (wk blk)) = Dim4 768 1 1 1 \<and>
         dims (bias (wv blk)) = Dim4 768 1 1 1 \<and>
         at2 (weight (wq blk)) i j = at2 W i j \<and>
         at2 (weight (wk blk)) i j = at2 W (768 + i) j \<and>
         at2 (weight (wv blk)) i j = at2 W (2 * 768 + i) j \<and>
         at2 W i j = F ! (i + 2304 * j) \<and>
         at2 W (768 + i) j = F ! (768 + i + 2304 * j) \<and>
         at2 W (2 * 768 + i) j = F ! (2 * 768 + i + 2304 * j) \<and>
         elems (bias (wq blk)) ! i = G ! i \<and>
         elems (bias (wk blk)) ! i = G ! (768 + i) \<and>
         elems (bias (wv blk)) ! i = G ! (2 * 768 + i)"
proof -
  note L = load_Inr_qkv [OF load, folded F_def G_def, folded W_def]
  let ?B = "af_array (Dim4 2304 1 1 1) G"
  have dW: "dimn (dims W) 1 = 768" and dB: "dimn (dims ?B) 1 = 1"
    by (simp_all add: af_array_def W_def)
  have jW: "j < dimn (dims W) 1" using j dW by simp
  have z: "0 < dimn (dims ?B) 1" using dB by simp
  have w1: "at2 (seq_rows W 0 767) i j = at2 W (0 + i) j"
    using i by (intro at2_seq_rows [OF _ _ jW]) simp_all
  have w2: "at2 (seq_rows W 768 1535) i j = at2 W (768 + i) j"
    using i by (intro at2_seq_rows [OF _ _ jW]) simp_all
  have w3: "at2 (seq_rows W 1536 2303) i j = at2 W (1536 + i) j"
    using i by (intro at2_seq_rows [OF _ _ jW]) simp_all
  have layout: "at2 W r j = F ! (r + 2304 * j)" if "r < 2304" for r
    unfolding W_def using that j L(1) by (intro at2_af_array) simp_all
  have b: "elems (seq_rows ?B lo hi) ! i = G ! (lo + i)"
    if h: "lo \<le> hi" "i \<le> hi - lo" "hi < 2304" for lo hi
  proof -
    have "at2 (seq_rows ?B lo hi) i 0 = at2 ?B (lo + i) 0"
      by (rule at2_seq_rows [OF h(1) h(2) z])
    moreover have "at2 ?B (lo + i) 0 = G ! (lo + i + 2304 * 0)"
      using h L(2) by (intro at2_af_array) simp_all
    ultimately show ?thesis by (simp add: at2_def)
  qed
  have b1: "elems (seq_rows ?B 0 767) ! i = G ! (0 + i)"
    using i by (intro b) simp_all
  have b2: "elems (seq_rows ?B 768 1535) ! i = G ! (768 + i)"
    using i by (intro b) simp_all
  have b3: "elems (seq_rows ?B 1536 2303) ! i = G ! (1536 + i)"
    using i by (intro b) simp_all
  have f1: "at2 W i j = F ! (i + 2304 * j)"
    using i by (intro layout) simp
  have f2: "at2 W (768 + i) j = F ! (768 + i + 2304 * j)"
    using i by (intro layout) simp
  have f3: "at2 W (1536 + i) j = F ! (1536 + i + 2304 * j)"
    using i by (intro layout) simp
  show ?thesis
    using w1 w2 w3 b1 b2 b3 f1 f2 f3 dW dB by (simp add: L(3,4,5) dims_seq_rows)
qed

theorem qkv_split_witness:
  "\<exists>blk. VisionTransformer_load marked_checkpoint ''vit'' = Inr blk \<and>
         at2 (weight (wq blk)) 5 7 = Fin 0 \<and>
         at2 (weight (wk blk)) 5 7 = Fin (1 / 2 ^ 149) \<and>
         at2 (weight (wv blk)) 5 7 = Fin (2 / 2 ^ 149) \<and>
         elems (bias (wq blk)) ! 5 = Fin 0 \<and>
         elems (bias (wk blk)) ! 5 = Fin (1 / 2 ^ 149) \<and>
         elems (bias (wv blk)) ! 5 = Fin (2 / 2 ^ 149)"
proof -
  obtain blk where load: "VisionTransformer_load marked_checkpoint ''vit'' = Inr blk"
    using marked_loads by blast
  have five: "(5::nat) < 768" and seven: "(7::nat) < 768" by simp_all
  note split = qkv_split [OF load five seven]
  have "at2 (weight (wq blk)) 5 7 = Fin 0"
    using split by (simp add: marked_weight_floats)
  moreover have "at2 (weight (wk blk)) 5 7 = Fin (1 / 2 ^ 149)"
    using split by (simp add: marked_weight_floats)
  moreover have "at2 (weight (wv blk)) 5 7 = Fin (2 / 2 ^ 149)"
    using split by (simp add: marked_weight_floats)
  moreover have "elems (bias (wq blk)) ! 5 = Fin 0"
    using split by (simp add: marked_bias_floats)
  moreover have "elems (bias (wk blk)) ! 5 = Fin (1 / 2 ^ 149)"
    using split by (simp add: marked_bias_floats)
  moreover have "elems (bias (wv blk)) ! 5 = Fin (2 / 2 ^ 149)"
    using split by (simp add: marked_bias_floats)
  ultimately show ?thesis using load by blast
qed

text \<open>
  C3, as stated: for every checkpoint file, construction fails with an error naming that
  file whenever its element count differs from the expected one. This fails when an
  earlier file is wrong too: with no file at all, the count of \<open>.mlp.fc1.bias.bin\<close> is 0
  and not 3072, and the error names \<open>.mlp.fc1.weight.bin\<close>.
\<close>

theorem load_error_names_file_counterexample:
  "length (readfloats Map.empty ([] @ ''.mlp.fc1.bias.bin'')) \<noteq> 3072 \<and>
   VisionTransformer_load Map.empty [] = Inl (RuntimeError ''.mlp.fc1.weight.bin'') \<and>
   VisionTransformer_load Map.empty [] \<noteq> Inl (RuntimeError ''.mlp.fc1.bias.bin'')"
  by (simp add: VisionTransformer_load_def readfloats_def)

text \<open>
  C3, amended: construction fails if and only if the element count of some checkpoint
  file differs from the expected one, and the error then names the first such file in the
  order in which the files are read (so it names a given file whenever that file's count
  is wrong and the counts of all files read before it are right). A file that does not
  exist yields zero elements, which is never the expected count, so it is rejected in the
  same way.
\<close>

theorem load_rejects_first_bad_file:
  "(case find (\<lambda>f. \<not> count_ok fs prefix f) checkpoint_files of
      Some f \<Rightarrow> VisionTransformer_load fs prefix = Inl (RuntimeError (fst f))
    | None \<Rightarrow> (\<exists>blk. VisionTransformer_load fs prefix = Inr blk)) \<and>
   (\<forall>f \<in> set checkpoint_files.
      fs (prefix @ fst f) = None \<longrightarrow> readfloats fs (prefix @ fst f) = [] \<and> \<not> count_ok fs prefix f)"
proof -
  have "\<forall>f \<in> set checkpoint_files.
      fs (prefix @ fst f) = None \<longrightarrow> readfloats fs (prefix @ fst f) = [] \<and> \<not> count_ok fs prefix f"
    by (simp add: checkpoint_files_def count_ok_def readfloats_def)
  then show ?thesis using load_first_bad [of fs prefix] by blast
qed

theorem load_rejects_first_bad_file_witness:
  "VisionTransformer_load (marked_checkpoint(''vit.mlp.fc2.weight.bin'' \<mapsto> zero_file 100)) ''vit''
     = Inl (RuntimeError ''.mlp.fc2.weight.bin'') \<and>
   VisionTransformer_load (marked_checkpoint(''vit.attn.qkv.bias.bin'' := None)) ''vit''
     = Inl (RuntimeError ''.attn.qkv.bias.bin'')"
proof -
  have a: "find (\<lambda>f. \<not> count_ok (marked_checkpoint(''vit.mlp.fc2.weight.bin'' \<mapsto> zero_file 100)) ''vit'' f)
             checkpoint_files = Some (''.mlp.fc2.weight.bin'', 768 * 3072)"
    by (simp add: checkpoint_files_def count_ok_def length_readfloats marked_checkpoint_def
        zero_file_def marked_file_def)
  have b: "find (\<lambda>f. \<not> count_ok (marked_checkpoint(''vit.attn.qkv.bias.bin'' := None)) ''vit'' f)
             checkpoint_files = Some (''.attn.qkv.bias.bin'', 2304)"
    by (simp add: checkpoint_files_def count_ok_def length_readfloats marked_checkpoint_def
        zero_file_def marked_file_def)
  show ?thesis
    using load_rejects_first_bad_file [of "marked_checkpoint(''vit.mlp.fc2.weight.bin'' \<mapsto> zero_file 100)" "''vit''"]
      load_rejects_first_bad_file [of "marked_checkpoint(''vit.attn.qkv.bias.bin'' := None)" "''vit''"]
    by (simp add: a b)
qed

text \<open>
  C4. The claim that, in the construction from a configuration, every linear sub-module
  has a bias as long as its output dimension fails for the output projection: with model
  dimension 768 and 6 heads of dimension 64, the constructor gives \<open>wf\<close> a weight of 768
  rows and 384 columns and a zero bias of 384 elements, not 768. The bias of \<open>w2\<close>, which
  also maps to the model dimension, has 768 elements.
\<close>

theorem init_wf_bias_length:
  "dims (weight (wf (fst (VisionTransformer_init rt 768 64 3072 6 pd pl g)))) = Dim4 768 384 1 1 \<and>
   dims (bias (wf (fst (VisionTransformer_init rt 768 64 3072 6 pd pl g)))) = Dim4 384 1 1 1 \<and>
   elems (bias (wf (fst (VisionTransformer_init rt 768 64 3072 6 pd pl g)))) = replicate 384 (Fin 0) \<and>
   dims (bias (w2 (fst (VisionTransformer_init rt 768 64 3072 6 pd pl g)))) = Dim4 768 1 1 1"
  by (simp add: VisionTransformer_init_def initLinear_def truncNormal_def fl_constant_def
      Let_def split_def)

theorem init_wf_bias_length_witness:
  "dims (weight (wf (fst (VisionTransformer_init ref_runtime 768 64 3072 6 0 0 (\<lambda>i. 1 / 2))))) =
     Dim4 768 384 1 1 \<and>
   dims (bias (wf (fst (VisionTransformer_init ref_runtime 768 64 3072 6 0 0 (\<lambda>i. 1 / 2))))) =
     Dim4 384 1 1 1"
  using init_wf_bias_length [of ref_runtime 0 0 "\<lambda>i. 1 / 2"] by simp

text \<open>
  C5. In \<open>selfAttention\<close> the scores are the product of \<open>q\<close>, divided by the square root
  of the head dimension, with the transpose of \<open>k\<close>; the attention weights are the
  softmax of the scores along axis 1; they are multiplied with \<open>v\<close> as they are, and
  dropout is applied only to the result of the output projection. When the scores are a
  \<open>T \<times> T \<times> N\<close> array of finite values, the weights sum to one over the key axis for every
  query position and every slice. (The sum is exact here: rounding is not modelled.)
\<close>

theorem attention_weights_normalized:
  assumes "dims (attention_scores rt blk x) = Dim4 T T N 1"
    and "length (elems (attention_scores rt blk x)) = T * T * N"
    and "\<forall>e \<in> set (elems (attention_scores rt blk x)). is_fin e"
    and "i < T" and "n < N"
  shows "attention_scores rt blk x =
           fl_matmulNT rt
             (tdivs (fl_moddims rt (fl_transpose rt (fl_linear rt (wq blk) x))
                       [- 1, int (headDim blk), int (nHeads blk * dimn (dims x) 2)])
                    (Fin (sqrt (real (headDim blk)))))
             (fl_moddims rt (fl_transpose rt (fl_linear rt (wk blk) x))
                [- 1, int (headDim blk), int (nHeads blk * dimn (dims x) 2)]) \<and>
         attention_weights rt blk x = softmax (attention_scores rt blk x) 1 \<and>
         fsum (map (\<lambda>j. at3 (attention_weights rt blk x) i j n) [0..<T]) = Fin 1 \<and>
         selfAttention rt blk x g =
           dropout rt
             (fl_linear rt (wf blk)
                (fl_transpose rt
                   (fl_moddims rt
                      (fl_matmul rt (attention_weights rt blk x)
                         (fl_moddims rt (fl_transpose rt (fl_linear rt (wv blk) x))
                            [- 1, int (headDim blk), int (nHeads blk * dimn (dims x) 2)]))
                      [- 1, int (headDim blk * nHeads blk), int (dimn (dims x) 2)])))
             (if train blk then pDropout blk else 0) g"
proof -
  have pos: "0 < T" using assms(4) by simp
  have sum: "fsum (map (\<lambda>j. at3 (softmax (attention_scores rt blk x) 1) i j n) [0..<T]) = Fin 1"
    by (rule softmax_row_sum [OF assms(1) assms(2) assms(3) assms(4) assms(5) pos])
  have w: "attention_weights rt blk x = softmax (attention_scores rt blk x) 1"
    by (simp add: attention_weights_def)
  have s: "attention_scores rt blk x =
           fl_matmulNT rt
             (tdivs (fl_moddims rt (fl_transpose rt (fl_linear rt (wq blk) x))
                       [- 1, int (headDim blk), int (nHeads blk * dimn (dims x) 2)])
                    (Fin (sqrt (real (headDim blk)))))
             (fl_moddims rt (fl_transpose rt (fl_linear rt (wk blk) x))
                [- 1, int (headDim blk), int (nHeads blk * dimn (dims x) 2)])"
    by (simp add: attention_scores_def attention_qkv_def Let_def)
  have a: "selfAttention rt blk x g =
           dropout rt
             (fl_linear rt (wf blk)
                (fl_transpose rt
                   (fl_moddims rt
                      (fl_matmul rt (attention_weights rt blk x)
                         (fl_moddims rt (fl_transpose rt (fl_linear rt (wv blk) x))
                            [- 1, int (headDim blk), int (nHeads blk * dimn (dims x) 2)]))
                      [- 1, int (headDim blk * nHeads blk), int (dimn (dims x) 2)])))
             (if train blk then pDropout blk else 0) g"
    by (simp add: selfAttention_def attention_output_def attention_qkv_def Let_def)
  show ?thesis using s w sum a by (simp only: simp_thms)
qed

theorem attention_weights_normalized_witness:
  "fsum (map (\<lambda>j. at3 (attention_weights ref_runtime tiny_block tiny_input) 0 j 1) [0..<2]) = Fin 1 \<and>
   fsum (map (\<lambda>j. at3 (attention_weights ref_runtime tiny_block tiny_input) 1 j 0) [0..<2]) = Fin 1"
proof -
  have a: "(0::nat) < 2" and b: "(1::nat) < 2" by simp_all
  show ?thesis
    using attention_weights_normalized [OF tiny_scores tiny_scores_finite a b]
      attention_weights_normalized [OF tiny_scores tiny_scores_finite b a]
    by blast
qed

text \<open>
  C6. \<open>gelu\<close> acts on each element on its own, and on every element \<open>x\<close> it computes
  \<open>0.5 * x * (1 + tanh (sqrt (2 / pi) * (x + 0.044715 * x ^ 3)))\<close>; on a finite element
  this is the formula over the real numbers, and \<open>gelu\<close> of 0 is 0. The dimensions do not
  change.
\<close>

theorem gelu_elementwise:
  assumes "i < length (elems input)"
  shows "dims (gelu input) = dims input \<and>
         length (elems (gelu input)) = length (elems input) \<and>
         elems (gelu input) ! i = gelu_spec (elems input ! i) \<and>
         (\<forall>x. elems input ! i = Fin x \<longrightarrow>
            elems (gelu input) ! i =
              Fin (1 / 2 * x * (1 + tanh (sqrt (2 / pi) * (x + 44715 / 1000000 * x ^ 3))))) \<and>
         (elems input ! i = Fin 0 \<longrightarrow> elems (gelu input) ! i = Fin 0)"
  using assms by (simp add: elems_gelu dims_gelu gelu_spec_def)

theorem gelu_elementwise_witness:
  "elems (gelu \<lparr>dims = Dim4 2 1 1 1, elems = [Fin 0, Fin 1]\<rparr>) ! 0 = Fin 0 \<and>
   elems (gelu \<lparr>dims = Dim4 2 1 1 1, elems = [Fin 0, Fin 1]\<rparr>) ! 1 =
     Fin (1 / 2 * (1 + tanh (sqrt (2 / pi) * (1 + 44715 / 1000000))))"
  using gelu_elementwise [of 0 "\<lparr>dims = Dim4 2 1 1 1, elems = [Fin 0, Fin 1]\<rparr>"]
    gelu_elementwise [of 1 "\<lparr>dims = Dim4 2 1 1 1, elems = [Fin 0, Fin 1]\<rparr>"]
  by (simp add: gelu_spec_def)

text \<open>
  C7. \<open>forward\<close> fails if and only if the input collection does not hold exactly one
  tensor; the failure is the runtime error of the arity check, and it leaves the random
  generator as it was.
\<close>

theorem forward_arity_error:
  "((\<exists>e. fst (forward rt blk inputs g) = Inl e) \<longleftrightarrow> length inputs \<noteq> 1) \<and>
   (fst (forward rt blk inputs g) = Inl (RuntimeError ''VisionTransformer forward, >1 inputs'')
      \<longleftrightarrow> length inputs \<noteq> 1) \<and>
   (length inputs \<noteq> 1 \<longrightarrow> snd (forward rt blk inputs g) = g)"
  by (simp add: forward_def Let_def split_def)

theorem forward_arity_error_witness:
  "fst (forward ref_runtime tiny_block [] (\<lambda>i. 1 / 2)) =
     Inl (RuntimeError ''VisionTransformer forward, >1 inputs'') \<and>
   fst (forward ref_runtime tiny_block [tiny_input, tiny_input] (\<lambda>i. 1 / 2)) =
     Inl (RuntimeError ''VisionTransformer forward, >1 inputs'') \<and>
   fst (forward ref_runtime tiny_block [tiny_input] (\<lambda>i. 1 / 2)) \<noteq>
     Inl (RuntimeError ''VisionTransformer forward, >1 inputs'')"
  using forward_arity_error [of ref_runtime tiny_block "[]" "\<lambda>i. 1 / 2"]
    forward_arity_error [of ref_runtime tiny_block "[tiny_input, tiny_input]" "\<lambda>i. 1 / 2"]
    forward_arity_error [of ref_runtime tiny_block "[tiny_input]" "\<lambda>i. 1 / 2"]
  by simp

text \<open>
  C8. In evaluation mode the result of \<open>forward\<close> does not depend on the state of the random
  generator, and \<open>forward\<close> leaves that state unchanged: the dropout probability is 0 in
  \<open>mlp\<close> and in \<open>selfAttention\<close>, and \<open>dropPath\<close> returns its input.
\<close>

theorem forward_eval_deterministic:
  assumes "\<not> train blk"
  shows "fst (forward rt blk inputs g1) = fst (forward rt blk inputs g2) \<and>
         snd (forward rt blk inputs g1) = g1 \<and>
         dropPath blk x g1 = (x, g1) \<and>
         mlp rt blk x g1 = (fl_linear rt (w2 blk) (gelu (fl_linear rt (w1 blk) x)), g1) \<and>
         selfAttention rt blk x g1 = (attention_output rt blk x, g1)"
  using assms
  by (simp add: forward_def mlp_def selfAttention_def dropPath_def dropout_zero Let_def)

theorem forward_eval_deterministic_witness:
  "fst (forward ref_runtime (tiny_block\<lparr>train := False\<rparr>) [tiny_input] (\<lambda>i. 1 / 2)) =
     fst (forward ref_runtime (tiny_block\<lparr>train := False\<rparr>) [tiny_input] (\<lambda>i. real i / 7)) \<and>
   snd (forward ref_runtime (tiny_block\<lparr>train := False\<rparr>) [tiny_input] (\<lambda>i. 1 / 2)) = (\<lambda>i. 1 / 2)"
  using forward_eval_deterministic [of "tiny_block\<lparr>train := False\<rparr>" ref_runtime "[tiny_input]"
      "\<lambda>i. 1 / 2" "\<lambda>i. real i / 7" tiny_input]
  by simp

text \<open>
  C9. A block built from a checkpoint has dropout probability 0 and drop-path
  probability 0, whatever the files hold. So, whether its train flag is on or off, the
  dropout applications in \<open>mlp\<close> and \<open>selfAttention\<close> leave their input unchanged and
  draw no random number.
\<close>

theorem load_dropout_zero:
  assumes "VisionTransformer_load fs prefix = Inr blk"
  shows "pDropout blk = 0 \<and> pLayerdrop blk = 0 \<and>
         mlp rt (blk\<lparr>train := flag\<rparr>) x g =
           (fl_linear rt (w2 blk) (gelu (fl_linear rt (w1 blk) x)), g) \<and>
         selfAttention rt (blk\<lparr>train := flag\<rparr>) x g =
           (attention_output rt (blk\<lparr>train := flag\<rparr>) x, g)"
  using load_Inr_probabilities [OF assms]
  by (simp add: mlp_def selfAttention_def dropout_zero Let_def)

theorem load_dropout_zero_witness:
  "\<exists>blk. VisionTransformer_load marked_checkpoint ''vit'' = Inr blk \<and>
         pDropout blk = 0 \<and> pLayerdrop blk = 0 \<and>
         mlp ref_runtime (blk\<lparr>train := True\<rparr>) tiny_input (\<lambda>i. 1 / 2) =
           (ref_linear (w2 blk) (gelu (ref_linear (w1 blk) tiny_input)), \<lambda>i. 1 / 2)"
proof -
  obtain blk where load: "VisionTransformer_load marked_checkpoint ''vit'' = Inr blk"
    using marked_loads by blast
  show ?thesis
    using load load_dropout_zero [OF load, of ref_runtime True tiny_input "\<lambda>i. 1 / 2"]
    by (auto simp: ref_runtime_def)
qed

text \<open>
  C10. In training mode with a drop-path probability above 0, on a non-empty input there
  is a draw of the random samples (all of them strictly between 0 and 1, none above the
  probability, so that every batch element is dropped) for which the realized keep ratio
  is zero: \<open>dropPath\<close> divides the zero mask by zero, and its output is NaN everywhere and
  not the zero array.
\<close>

theorem dropPath_division_by_zero:
  assumes "train blk" and "0 < pLayerdrop blk"
    and "dims x = Dim4 C T B 1" and "0 < C" and "0 < T" and "0 < B"
    and "length (elems x) = C * T * B"
  shows "\<exists>g. (\<forall>i. 0 < g i \<and> g i < 1) \<and>
             scalar (af_mean (tgt (fst (randu (Dim4 1 1 B 1) g)) (pLayerdrop blk)) 2) = Fin 0 \<and>
             elems (fst (dropPath blk x g)) = replicate (C * T * B) NaN \<and>
             elems (fst (dropPath blk x g)) \<noteq> replicate (C * T * B) (Fin 0)"
proof -
  define g :: rng where "g = (\<lambda>i. min (pLayerdrop blk) 1 / 2)"
  have range: "\<forall>i. 0 < g i \<and> g i < 1"
    using assms(2) by (simp add: g_def min_def)
  have low: "\<forall>i<B. g i \<le> pLayerdrop blk"
    using assms(2) by (simp add: g_def min_def)
  note D = dropPath_all_dropped [OF assms(1) assms(3) assms(6) low assms(7)]
  have "0 < C * T * B" using assms(4,5,6) by simp
  then have "replicate (C * T * B) NaN \<noteq> replicate (C * T * B) (Fin 0)"
    by (cases "C * T * B") simp_all
  then show ?thesis using range D by (intro exI [of _ g]) simp
qed

theorem dropPath_division_by_zero_witness:
  "\<exists>g. (\<forall>i. 0 < g i \<and> g i < 1) \<and>
       elems (fst (dropPath tiny_block tiny_input g)) = replicate 4 NaN"
proof -
  have "dims tiny_input = Dim4 2 2 1 1" and "length (elems tiny_input) = 2 * 2 * 1"
    by (simp_all add: tiny_input_def)
  from dropPath_division_by_zero [OF tiny_block_flags(1) _ this(1) _ _ _ this(2)]
  show ?thesis by (simp add: tiny_block_flags) blast
qed

end
